theory Spec2Isabelle
  imports Complex_Main "HOL-Library.Sublist"
begin

section \<open>Python strings\<close>

text \<open>
  A Python \<open>str\<close> is a sequence of Unicode code points; \<open>len\<close> counts code points and
  \<open>ord\<close> reads one.  The Tibetan block lies beyond one byte, so a string is a list of
  code points, not a list of 8-bit characters.  ASCII literals of the source are written
  through \<open>str\<close>.
\<close>

type_synonym pystr = "nat list"

definition str :: "string \<Rightarrow> pystr" where
  "str s = map of_char s"

text \<open>
  The code points for which \<open>str.isspace\<close> holds on a one-character string, which are the
  ones \<open>str.strip()\<close> removes and \<open>str.split()\<close> separates at (CPython's
  \<open>_PyUnicode_IsWhitespace\<close>).
\<close>

definition py_isspace :: "nat \<Rightarrow> bool" where
  "py_isspace c =
     ((9 \<le> c \<and> c \<le> 13) \<or> (28 \<le> c \<and> c \<le> 32) \<or> c = 133 \<or> c = 160 \<or> c = 5760 \<or>
      (8192 \<le> c \<and> c \<le> 8202) \<or> c = 8232 \<or> c = 8233 \<or> c = 8239 \<or> c = 8287 \<or>
      c = 12288)"

definition strip :: "pystr \<Rightarrow> pystr" where
  "strip s = rev (dropWhile py_isspace (rev (dropWhile py_isspace s)))"

text \<open>\<open>str.split()\<close> with no separator: the maximal runs of non-whitespace.\<close>

fun split_ws :: "pystr \<Rightarrow> pystr \<Rightarrow> pystr list" where
  "split_ws cur [] = (if cur = [] then [] else [cur])"
| "split_ws cur (c # cs) =
     (if py_isspace c then (if cur = [] then split_ws [] cs else cur # split_ws [] cs)
      else split_ws (cur @ [c]) cs)"

text \<open>\<open>re.split(r'[.!?]+', s)\<close>: the pieces between maximal runs of sentence terminators,
  empty pieces at the ends included.\<close>

definition is_terminator :: "nat \<Rightarrow> bool" where
  "is_terminator c = (c = 46 \<or> c = 33 \<or> c = 63)"

fun re_split_terminators :: "bool \<Rightarrow> pystr \<Rightarrow> pystr \<Rightarrow> pystr list" where
  "re_split_terminators in_run cur [] = [cur]"
| "re_split_terminators in_run cur (c # cs) =
     (if is_terminator c
      then (if in_run then re_split_terminators True [] cs
            else cur # re_split_terminators True [] cs)
      else re_split_terminators False (cur @ [c]) cs)"

text \<open>\<open>s.split('. ')\<close>: the pieces between non-overlapping occurrences of a full stop
  followed by a space, scanned from the left.\<close>

fun split_dot_space :: "pystr \<Rightarrow> pystr \<Rightarrow> pystr list" where
  "split_dot_space cur [] = [cur]"
| "split_dot_space cur [a] = [cur @ [a]]"
| "split_dot_space cur (a # b # cs) =
     (if a = 46 \<and> b = 32 then cur # split_dot_space [] cs
      else split_dot_space (cur @ [a]) (b # cs))"

section \<open>Language detection and validation (dzongkha\_service.py)\<close>

text \<open>
  \<open>detect_language\<close> returns a dict with the keys \<open>language\<close> and \<open>confidence\<close>.  The
  confidence is the quotient of two counters; it is kept as the exact rational that
  Python's true division rounds to a double.
\<close>

record detection =
  language :: string
  confidence :: rat

definition dzongkha_ranges :: "(nat \<times> nat) list" where
  "dzongkha_ranges = [(0x0F00, 0x0FFF)]"

text \<open>The inner loop over the ranges: the first range that holds the code point counts
  it once and breaks.\<close>

fun count_in_ranges :: "(nat \<times> nat) list \<Rightarrow> nat \<Rightarrow> nat \<Rightarrow> nat" where
  "count_in_ranges [] char_code dzongkha_chars = dzongkha_chars"
| "count_in_ranges ((start, end) # rs) char_code dzongkha_chars =
     (if start \<le> char_code \<and> char_code \<le> end then dzongkha_chars + 1
      else count_in_ranges rs char_code dzongkha_chars)"

text \<open>The loop over the characters, carrying \<open>(dzongkha_chars, total_chars)\<close>.\<close>

fun detect_loop :: "pystr \<Rightarrow> nat \<times> nat \<Rightarrow> nat \<times> nat" where
  "detect_loop [] acc = acc"
| "detect_loop (c # cs) (dzongkha_chars, total_chars) =
     (if strip [c] \<noteq> []
      then detect_loop cs (count_in_ranges dzongkha_ranges c dzongkha_chars, total_chars + 1)
      else detect_loop cs (dzongkha_chars, total_chars))"

definition detect_language :: "pystr \<Rightarrow> detection" where
  "detect_language text =
     (case detect_loop text (0, 0) of (dzongkha_chars, total_chars) \<Rightarrow>
        if total_chars = 0 then \<lparr>language = ''unknown'', confidence = 0\<rparr>
        else let conf = of_nat dzongkha_chars / of_nat total_chars
             in if conf > 1 / 2 then \<lparr>language = ''dz'', confidence = conf\<rparr>
                else \<lparr>language = ''other'', confidence = 1 - conf\<rparr>)"

record validation =
  is_valid :: bool
  valid_confidence :: rat
  character_count :: nat
  word_estimate :: nat

definition validate_dzongkha_text :: "pystr \<Rightarrow> validation" where
  "validate_dzongkha_text text =
     (let detection = detect_language text
      in \<lparr>is_valid = (language detection = ''dz''),
          valid_confidence = confidence detection,
          character_count = length text,
          word_estimate = (if text \<noteq> [] then length (split_ws [] text) else 0)\<rparr>)"

text \<open>The counters of the specification: the non-whitespace characters of a text, and
  those of them in the Tibetan block.\<close>

definition total_count :: "pystr \<Rightarrow> nat" where
  "total_count text = length (filter (\<lambda>c. \<not> py_isspace c) text)"

definition matched_count :: "pystr \<Rightarrow> nat" where
  "matched_count text =
     length (filter (\<lambda>c. \<not> py_isspace c \<and> 0x0F00 \<le> c \<and> c \<le> 0x0FFF) text)"

definition match_ratio :: "pystr \<Rightarrow> rat" where
  "match_ratio text = of_nat (matched_count text) / of_nat (total_count text)"

section \<open>Synthetic tone speech (dzongkha\_service.py)\<close>

text \<open>
  \<open>generate_synthetic_dzongkha_speech\<close> appends, for every character of the text, a run
  of 16-bit frames: a decaying tone for a non-whitespace character, silence for
  whitespace.  The branch that picks the frequency and the number of frames are integer
  computations and are modelled exactly.  The sample values are floating-point
  expressions in the source; they are written over the reals here, and nothing below
  depends on their value.
\<close>

datatype tone_type = High | Mid | Low

definition sample_rate :: nat where
  "sample_rate = 22050"

definition base_freq :: nat where
  "base_freq = 180"

text \<open>The \<open>if\<close>/\<open>elif\<close>/\<open>else\<close> chain on the code point, in the source's order.\<close>

definition char_tone :: "nat \<Rightarrow> nat \<times> tone_type" where
  "char_tone char_code =
     (if char_code \<ge> 0x0F00 \<and> char_code \<le> 0x0FFF
      then (base_freq + char_code mod 100 + 50, High)
      else if char_code \<ge> 0x0F40 \<and> char_code \<le> 0x0F6C
      then (base_freq + char_code mod 50 + 25, Mid)
      else (base_freq + char_code mod 30, Low))"

text \<open>\<open>int(sample_rate * 0.15)\<close> and \<open>int(sample_rate * 0.1)\<close>: the products are 3307.5
  and 2205, and \<open>int\<close> drops the fraction.\<close>

definition tone_samples :: nat where
  "tone_samples = sample_rate * 15 div 100"

definition silence_samples :: nat where
  "silence_samples = sample_rate * 1 div 10"

text \<open>Python's \<open>int\<close> on a float rounds towards zero.\<close>

definition py_int :: "real \<Rightarrow> int" where
  "py_int x = (if 0 \<le> x then \<lfloor>x\<rfloor> else \<lceil>x\<rceil>)"

definition tone_frame :: "nat \<Rightarrow> tone_type \<Rightarrow> nat \<Rightarrow> int" where
  "tone_frame freq tone j =
     (let t = real j / real sample_rate;
          v = 0.6 * sin (2 * pi * real freq * t)
            + 0.2 * sin (2 * pi * real freq * 2 * t)
            + 0.1 * sin (2 * pi * real freq * 3 * t);
          envelope = (if tone = High then exp (- t * 3) else exp (- t * 2))
      in py_int (32767 * (v * (envelope * 0.3))))"

definition char_frames :: "nat \<Rightarrow> int list" where
  "char_frames c =
     (if strip [c] \<noteq> []
      then (case char_tone c of (freq, tone) \<Rightarrow> map (tone_frame freq tone) [0..<tone_samples])
      else replicate silence_samples 0)"

text \<open>The WAV file written at the output path: mono, two bytes a frame, 22050 Hz.\<close>

record wav =
  nchannels :: nat
  sampwidth :: nat
  framerate :: nat
  frames :: "int list"

definition generate_synthetic_dzongkha_speech :: "pystr \<Rightarrow> wav" where
  "generate_synthetic_dzongkha_speech text =
     \<lparr>nchannels = 1, sampwidth = 2, framerate = sample_rate,
      frames = concat (map char_frames text)\<rparr>"

section \<open>Files, external processes and remote services\<close>

text \<open>
  The services reach outside the program in three ways: files, child processes
  (\<open>subprocess.run\<close>) and remote clients.  The world holds the files and a trace: every
  external call in the order it is made, and a marker for every pipeline stage a job
  enters.  What a call answers is not the program's to decide; it is read from an
  environment whose answers may depend on the whole world, trace included, so that two
  calls with the same arguments may be answered differently.
\<close>

type_synonym path = string

type_synonym bytes = string

text \<open>Exceptions: a plain \<open>Exception\<close> with its message (also any error a remote client
  raises), and the \<open>CalledProcessError\<close> of \<open>subprocess.run(..., check=True)\<close> with the
  exit status.\<close>

datatype exn = Exception string | CalledProcessError int

definition exn_str :: "exn \<Rightarrow> string" where
  "exn_str e = (case e of Exception msg \<Rightarrow> msg
                | CalledProcessError rc \<Rightarrow> ''Command returned non-zero exit status'')"

text \<open>The command lines of the source, by their variable parts.\<close>

datatype command =
    FFmpeg_color string path
  | FFmpeg_anullsrc nat path
  | FFmpeg_still path path path
  | FFmpeg_concat path path
  | Cp path path

datatype remote_call =
    ElevenLabs_generate pystr pystr
  | OpenAI_speech pystr
  | OpenAI_image pystr
  | Requests_get string

datatype stage = Segmentation | Audio_generation | Image_generation | Assembly

datatype event = Run command | Remote remote_call | Stage stage

record world =
  files :: "path \<rightharpoonup> bytes"
  trace :: "event list"

record env =
  elevenlabs :: "world \<Rightarrow> pystr \<Rightarrow> pystr \<Rightarrow> exn + bytes"
  openai_speech :: "world \<Rightarrow> pystr \<Rightarrow> exn + bytes"
  openai_image :: "world \<Rightarrow> pystr \<Rightarrow> exn + string"
  requests_get :: "world \<Rightarrow> string \<Rightarrow> exn + nat \<times> bytes"
  process :: "world \<Rightarrow> command \<Rightarrow> (exn + int) \<times> (path \<rightharpoonup> bytes)"
  py_hash :: "pystr \<Rightarrow> int"

definition emit :: "event \<Rightarrow> world \<Rightarrow> world" where
  "emit e w = w\<lparr>trace := trace w @ [e]\<rparr>"

definition write_file :: "path \<Rightarrow> bytes \<Rightarrow> world \<Rightarrow> world" where
  "write_file p b w = w\<lparr>files := (files w)(p \<mapsto> b)\<rparr>"

definition path_exists :: "world \<Rightarrow> path \<Rightarrow> bool" where
  "path_exists w p = (files w p \<noteq> None)"

text \<open>
  \<open>subprocess.run(cmd, check=check)\<close>: the process leaves the files as the environment
  says.  Launching may raise (the executable is missing); with \<open>check\<close> a non-zero
  exit status raises \<open>CalledProcessError\<close>.
\<close>

definition subprocess_run :: "env \<Rightarrow> command \<Rightarrow> bool \<Rightarrow> world \<Rightarrow> (exn + int) \<times> world" where
  "subprocess_run env cmd check w =
     (case process env w cmd of (r, fs) \<Rightarrow>
        let w' = \<lparr>files = fs, trace = trace w @ [Run cmd]\<rparr>
        in case r of
             Inl e \<Rightarrow> (Inl e, w')
           | Inr rc \<Rightarrow> if check \<and> rc \<noteq> 0 then (Inl (CalledProcessError rc), w')
                       else (Inr rc, w'))"

section \<open>Voice service (voice\_cloning.py)\<close>

text \<open>\<open>self.client\<close> is the ElevenLabs client when the API key is set, and \<open>None\<close>
  otherwise.\<close>

record voice_service =
  client :: bool

definition generate_with_fallback ::
  "env \<Rightarrow> pystr \<Rightarrow> pystr \<Rightarrow> path \<Rightarrow> world \<Rightarrow> (exn + path) \<times> world" where
  "generate_with_fallback env text voice_id output_path w =
     (case openai_speech env w text of
        Inr audio \<Rightarrow>
          (Inr output_path, write_file output_path audio (emit (Remote (OpenAI_speech text)) w))
      | Inl e \<Rightarrow>
          (case subprocess_run env (FFmpeg_anullsrc (length text) output_path) True
                  (emit (Remote (OpenAI_speech text)) w) of
             (Inl e', w') \<Rightarrow> (Inl e', w')
           | (Inr rc, w') \<Rightarrow> (Inr output_path, w')))"

definition generate_with_elevenlabs ::
  "env \<Rightarrow> pystr \<Rightarrow> pystr \<Rightarrow> path \<Rightarrow> world \<Rightarrow> (exn + path) \<times> world" where
  "generate_with_elevenlabs env text voice_id output_path w =
     (case elevenlabs env w text voice_id of
        Inr audio \<Rightarrow>
          (Inr output_path,
           write_file output_path audio (emit (Remote (ElevenLabs_generate text voice_id)) w))
      | Inl e \<Rightarrow>
          generate_with_fallback env text voice_id output_path
            (emit (Remote (ElevenLabs_generate text voice_id)) w))"

definition generate_speech ::
  "voice_service \<Rightarrow> env \<Rightarrow> pystr \<Rightarrow> pystr \<Rightarrow> path \<Rightarrow> world \<Rightarrow> (exn + path) \<times> world" where
  "generate_speech self env text voice_id output_path w =
     (if client self \<and> \<not> prefix (str ''fallback_'') voice_id
      then generate_with_elevenlabs env text voice_id output_path w
      else generate_with_fallback env text voice_id output_path w)"

text \<open>
  \<open>list_available_voices\<close>: the voices the ElevenLabs client reports (none without a
  client or when the request raises), tagged with the service \<open>elevenlabs\<close>, followed by
  six preset voices that the source adds under the comment "Add fallback voices" and
  tags with the service \<open>openai\<close>.  The answer of the client is a parameter.  The
  keys \<open>voice_id\<close>, \<open>name\<close> and \<open>service\<close> of an entry are the fields \<open>entry_id\<close>,
  \<open>entry_name\<close> and \<open>entry_service\<close>.
\<close>

record voice_entry =
  entry_id :: pystr
  entry_name :: pystr
  entry_service :: string

definition fallback_voices :: "voice_entry list" where
  "fallback_voices =
     [\<lparr>entry_id = str ''openai_alloy'', entry_name = str ''Alloy (OpenAI)'', entry_service = ''openai''\<rparr>,
      \<lparr>entry_id = str ''openai_echo'', entry_name = str ''Echo (OpenAI)'', entry_service = ''openai''\<rparr>,
      \<lparr>entry_id = str ''openai_fable'', entry_name = str ''Fable (OpenAI)'', entry_service = ''openai''\<rparr>,
      \<lparr>entry_id = str ''openai_onyx'', entry_name = str ''Onyx (OpenAI)'', entry_service = ''openai''\<rparr>,
      \<lparr>entry_id = str ''openai_nova'', entry_name = str ''Nova (OpenAI)'', entry_service = ''openai''\<rparr>,
      \<lparr>entry_id = str ''openai_shimmer'', entry_name = str ''Shimmer (OpenAI)'',
       entry_service = ''openai''\<rparr>]"

definition list_available_voices ::
  "voice_service \<Rightarrow> (exn + (pystr \<times> pystr) list) \<Rightarrow> voice_entry list" where
  "list_available_voices self get_all =
     (if client self
      then (case get_all of
              Inr elevenlabs_voices \<Rightarrow>
                map (\<lambda>(i, n). \<lparr>entry_id = i, entry_name = n, entry_service = ''elevenlabs''\<rparr>)
                  elevenlabs_voices
            | Inl e \<Rightarrow> [])
      else [])
     @ fallback_voices"

section \<open>Image service (image\_generation.py)\<close>

definition style_modifier :: "string \<Rightarrow> string" where
  "style_modifier style =
     (if style = ''realistic'' then ''photorealistic, high quality, detailed''
      else if style = ''artistic'' then ''artistic, creative, stylized''
      else if style = ''cartoon'' then ''cartoon style, animated, colorful''
      else if style = ''minimalist'' then ''minimalist, clean, simple design''
      else if style = ''cinematic'' then ''cinematic lighting, dramatic, movie-like''
      else ''high quality, detailed'')"

definition enhance_prompt :: "pystr \<Rightarrow> string \<Rightarrow> pystr" where
  "enhance_prompt text_prompt style =
     (let enhanced_prompt =
            text_prompt @ str '', '' @ str (style_modifier style) @ str '', 16:9 aspect ratio''
      in if length enhanced_prompt > 1000 then take 1000 enhanced_prompt else enhanced_prompt)"

text \<open>\<open>f"#{color_hash:06x}"\<close> for a hash below \<open>16 ^ 6\<close>: six lower-case hex digits.\<close>

definition hex_digit :: "nat \<Rightarrow> char" where
  "hex_digit d = ''0123456789abcdef'' ! (d mod 16)"

definition color_hex :: "nat \<Rightarrow> string" where
  "color_hex color_hash =
     CHR ''#'' # map (\<lambda>k. hex_digit (color_hash div 16 ^ k)) [5, 4, 3, 2, 1, 0]"

text \<open>The fallback renders a one-colour frame with ffmpeg, the colour taken from the
  prompt's hash; if that raises, a black frame, and what this one raises leaves the
  function.\<close>

definition generate_fallback_image ::
  "env \<Rightarrow> pystr \<Rightarrow> path \<Rightarrow> world \<Rightarrow> (exn + path) \<times> world" where
  "generate_fallback_image env text_prompt output_path w =
     (let color_hash = nat (py_hash env text_prompt mod 16777215)
      in case subprocess_run env (FFmpeg_color (color_hex color_hash) output_path) True w of
           (Inr rc, w1) \<Rightarrow> (Inr output_path, w1)
         | (Inl e, w1) \<Rightarrow>
             (case subprocess_run env (FFmpeg_color ''black'' output_path) True w1 of
                (Inr rc, w2) \<Rightarrow> (Inr output_path, w2)
              | (Inl e', w2) \<Rightarrow> (Inl e', w2)))"

definition generate_image_from_text ::
  "env \<Rightarrow> pystr \<Rightarrow> path \<Rightarrow> string \<Rightarrow> world \<Rightarrow> (exn + path) \<times> world" where
  "generate_image_from_text env text_prompt output_path style w =
     (let enhanced_prompt = enhance_prompt text_prompt style;
          w1 = emit (Remote (OpenAI_image enhanced_prompt)) w
      in case openai_image env w enhanced_prompt of
           Inl e \<Rightarrow> generate_fallback_image env text_prompt output_path w1
         | Inr image_url \<Rightarrow>
             (let w2 = emit (Remote (Requests_get image_url)) w1
              in case requests_get env w1 image_url of
                   Inl e \<Rightarrow> generate_fallback_image env text_prompt output_path w2
                 | Inr (status_code, content) \<Rightarrow>
                     if status_code = 200
                     then (Inr output_path, write_file output_path content w2)
                     else generate_fallback_image env text_prompt output_path w2))"

text \<open>The events a computation added to the trace of the world it started in.\<close>

definition new_events :: "world \<Rightarrow> world \<Rightarrow> event list" where
  "new_events w w' = drop (length (trace w)) (trace w')"

definition is_elevenlabs_call :: "event \<Rightarrow> bool" where
  "is_elevenlabs_call e = (case e of Remote (ElevenLabs_generate t v) \<Rightarrow> True | _ \<Rightarrow> False)"

text \<open>The world in which \<open>generate_image_from_text\<close> enters its \<open>except\<close> branch: the
  remote calls it made are on the trace, the files are untouched.\<close>

definition remote_attempted :: "env \<Rightarrow> pystr \<Rightarrow> string \<Rightarrow> world \<Rightarrow> world" where
  "remote_attempted env text_prompt style w =
     (let enhanced_prompt = enhance_prompt text_prompt style;
          w1 = emit (Remote (OpenAI_image enhanced_prompt)) w
      in case openai_image env w enhanced_prompt of
           Inl e \<Rightarrow> w1
         | Inr image_url \<Rightarrow> emit (Remote (Requests_get image_url)) w1)"

text \<open>A provider failure: the image request raises, or the download raises, or the
  download answers with a status other than 200.\<close>

definition remote_failed :: "env \<Rightarrow> pystr \<Rightarrow> string \<Rightarrow> world \<Rightarrow> bool" where
  "remote_failed env text_prompt style w =
     (let enhanced_prompt = enhance_prompt text_prompt style
      in case openai_image env w enhanced_prompt of
           Inl e \<Rightarrow> True
         | Inr image_url \<Rightarrow>
             (case requests_get env (emit (Remote (OpenAI_image enhanced_prompt)) w) image_url of
                Inl e \<Rightarrow> True
              | Inr (status_code, content) \<Rightarrow> status_code \<noteq> 200))"

text \<open>Environments and worlds to evaluate on.  In \<open>offline_env\<close> every remote client
  raises and every child process exits with status 1 and writes nothing.  In
  \<open>black_only_env\<close> the remote clients raise and ffmpeg renders the black frame only.\<close>

definition empty_world :: world where
  "empty_world = \<lparr>files = Map.empty, trace = []\<rparr>"

definition offline_env :: env where
  "offline_env =
     \<lparr>elevenlabs = (\<lambda>w t v. Inl (Exception ''connection refused'')),
      openai_speech = (\<lambda>w t. Inl (Exception ''connection refused'')),
      openai_image = (\<lambda>w p. Inl (Exception ''connection refused'')),
      requests_get = (\<lambda>w u. Inl (Exception ''connection refused'')),
      process = (\<lambda>w c. (Inr 1, files w)),
      py_hash = (\<lambda>s. 0)\<rparr>"

definition black_only_env :: env where
  "black_only_env =
     offline_env\<lparr>process :=
       (\<lambda>w c. if c = FFmpeg_color ''black'' ''out.png''
              then (Inr 0, (files w)(''out.png'' \<mapsto> ''PNG'')) else (Inr 1, files w))\<rparr>"

section \<open>Scene segmentation (video.py, advanced\_video\_generation.py, offline\_ai\_service.py)\<close>

text \<open>The sentence loop of \<open>split_script_into_segments\<close>, carrying \<open>segments\<close> and
  \<open>current_segment\<close>: sentences are joined with ". " until a segment would pass 200
  characters.\<close>

fun join_sentences :: "pystr list \<Rightarrow> pystr list \<Rightarrow> pystr \<Rightarrow> pystr list \<times> pystr" where
  "join_sentences [] segments current_segment = (segments, current_segment)"
| "join_sentences (s # rest) segments current_segment =
     (let sentence = strip s
      in if sentence = [] then join_sentences rest segments current_segment
         else if length current_segment + length sentence > 200 \<and> current_segment \<noteq> []
         then join_sentences rest (segments @ [strip current_segment]) sentence
         else if current_segment \<noteq> []
         then join_sentences rest segments (current_segment @ str ''. '' @ sentence)
         else join_sentences rest segments sentence)"

definition split_script_into_segments :: "pystr \<Rightarrow> pystr list" where
  "split_script_into_segments script =
     (case join_sentences (re_split_terminators False [] script) [] [] of
        (segments, current_segment) \<Rightarrow>
          let segments' = (if strip current_segment \<noteq> []
                           then segments @ [strip current_segment] else segments)
          in if segments' = [] then [script] else segments')"

text \<open>\<open>OfflineAIService.split_script\<close>: the stripped sentences that are not empty.\<close>

definition split_script :: "pystr \<Rightarrow> pystr list" where
  "split_script script =
     map strip (filter (\<lambda>s. strip s \<noteq> []) (re_split_terminators False [] script))"

text \<open>
  \<open>_parse_script_into_scenes\<close> asks a chat model for a JSON object and reads its key
  \<open>scenes\<close>.  The request, the JSON parsing or the lookup may raise; the bare \<open>except\<close>
  then splits the script at ". ".  The three outcomes of the \<open>try\<close> body are the
  constructors of \<open>ai_response\<close>.
\<close>

record scene =
  scene_text :: pystr
  visual_description :: pystr

datatype ai_response = Request_failed | Scenes "scene list" | No_scenes_key

definition parse_script_into_scenes :: "ai_response \<Rightarrow> pystr \<Rightarrow> scene list" where
  "parse_script_into_scenes response script =
     (case response of
        Scenes scenes \<Rightarrow> scenes
      | No_scenes_key \<Rightarrow> [\<lparr>scene_text = script, visual_description = script\<rparr>]
      | Request_failed \<Rightarrow>
          map (\<lambda>s. \<lparr>scene_text = strip s @ str ''.'', visual_description = strip s\<rparr>)
            (filter (\<lambda>s. strip s \<noteq> []) (split_dot_space [] script)))"

section \<open>Online pipeline (video.py)\<close>

definition OUTPUT_FOLDER :: path where
  "OUTPUT_FOLDER = ''/tmp/outputs''"

text \<open>\<open>os.path.join\<close> of two components.\<close>

definition path_join :: "path \<Rightarrow> string \<Rightarrow> path" where
  "path_join a b =
     (if b \<noteq> [] \<and> hd b = CHR ''/'' then b
      else if a = [] \<or> last a = CHR ''/'' then a @ b
      else a @ ''/'' @ b)"

text \<open>The decimal digits of an index, as an f-string prints it.\<close>

function show_nat :: "nat \<Rightarrow> string" where
  "show_nat n =
     (if n < 10 then [''0123456789'' ! n] else show_nat (n div 10) @ [''0123456789'' ! (n mod 10)])"
  by pat_completeness auto
termination
  by (relation "measure id") auto

declare show_nat.simps [simp del]

text \<open>The two loops of \<open>process_video_generation\<close> over \<open>enumerate(segments)\<close>: a
  segment that strips to nothing is skipped but still counted by the index.\<close>

fun audio_loop ::
  "voice_service \<Rightarrow> env \<Rightarrow> pystr \<Rightarrow> string \<Rightarrow> nat \<Rightarrow> pystr list \<Rightarrow> path list \<Rightarrow> world
     \<Rightarrow> (exn + path list) \<times> world" where
  "audio_loop vs env voice_id job_id i [] audio_files w = (Inr audio_files, w)"
| "audio_loop vs env voice_id job_id i (segment # rest) audio_files w =
     (if strip segment \<noteq> []
      then (let audio_file =
                  path_join OUTPUT_FOLDER (job_id @ ''_audio_'' @ show_nat i @ ''.wav'')
            in case generate_speech vs env segment voice_id audio_file
                      (emit (Stage Audio_generation) w) of
                 (Inl e, w') \<Rightarrow> (Inl e, w')
               | (Inr p, w') \<Rightarrow>
                   audio_loop vs env voice_id job_id (i + 1) rest (audio_files @ [audio_file]) w')
      else audio_loop vs env voice_id job_id (i + 1) rest audio_files w)"

fun image_loop ::
  "env \<Rightarrow> string \<Rightarrow> nat \<Rightarrow> pystr list \<Rightarrow> path list \<Rightarrow> world \<Rightarrow> (exn + path list) \<times> world" where
  "image_loop env job_id i [] image_files w = (Inr image_files, w)"
| "image_loop env job_id i (segment # rest) image_files w =
     (if strip segment \<noteq> []
      then (let image_file =
                  path_join OUTPUT_FOLDER (job_id @ ''_image_'' @ show_nat i @ ''.png'')
            in case generate_image_from_text env segment image_file ''realistic''
                      (emit (Stage Image_generation) w) of
                 (Inl e, w') \<Rightarrow> (Inl e, w')
               | (Inr p, w') \<Rightarrow>
                   image_loop env job_id (i + 1) rest (image_files @ [image_file]) w')
      else image_loop env job_id (i + 1) rest image_files w)"

text \<open>The loop of \<open>combine_media_to_video\<close> over the audio-image pairs: ffmpeg builds
  a segment for every pair whose files exist, and a non-zero exit skips the pair.\<close>

fun build_segments ::
  "env \<Rightarrow> string \<Rightarrow> nat \<Rightarrow> (path \<times> path) list \<Rightarrow> path list \<Rightarrow> world
     \<Rightarrow> (exn + path list) \<times> world" where
  "build_segments env job_id i [] segment_videos w = (Inr segment_videos, w)"
| "build_segments env job_id i ((audio_file, image_file) # rest) segment_videos w =
     (if path_exists w audio_file \<and> path_exists w image_file
      then (let segment_video =
                  path_join OUTPUT_FOLDER (job_id @ ''_segment_'' @ show_nat i @ ''.mp4'')
            in case subprocess_run env (FFmpeg_still image_file audio_file segment_video)
                      False w of
                 (Inl e, w') \<Rightarrow> (Inl e, w')
               | (Inr rc, w') \<Rightarrow>
                   if rc \<noteq> 0 then build_segments env job_id (i + 1) rest segment_videos w'
                   else build_segments env job_id (i + 1) rest
                          (segment_videos @ [segment_video]) w')
      else build_segments env job_id (i + 1) rest segment_videos w)"

text \<open>The lines of the concat list, and the cleanup loop (\<open>os.remove\<close> under a bare
  \<open>except: pass\<close>).\<close>

definition concat_list :: "path list \<Rightarrow> bytes" where
  "concat_list segment_videos =
     concat (map (\<lambda>p. ''file '' @ [CHR 0x27] @ p @ [CHR 0x27, CHR 0x0A]) segment_videos)"

definition remove_files :: "path list \<Rightarrow> world \<Rightarrow> world" where
  "remove_files ps w = w\<lparr>files := (\<lambda>p. if p \<in> set ps then None else files w p)\<rparr>"

text \<open>The body of the \<open>try\<close> of \<open>combine_media_to_video\<close>.\<close>

definition combine_media_try ::
  "env \<Rightarrow> path list \<Rightarrow> path list \<Rightarrow> string \<Rightarrow> world \<Rightarrow> (exn + path) \<times> world" where
  "combine_media_try env audio_files image_files job_id w =
     (let video_path = path_join OUTPUT_FOLDER (job_id @ ''.mp4'')
      in if audio_files = [] \<or> image_files = []
         then (Inl (Exception ''No audio or image files to combine''), w)
         else case build_segments env job_id 0 (zip audio_files image_files) [] w of
           (Inl e, w1) \<Rightarrow> (Inl e, w1)
         | (Inr segment_videos, w1) \<Rightarrow>
             if segment_videos = []
             then (Inl (Exception ''No video segments were created successfully''), w1)
             else if length segment_videos = 1
             then (case subprocess_run env (Cp (hd segment_videos) video_path) True w1 of
                     (Inl e, w2) \<Rightarrow> (Inl e, w2)
                   | (Inr rc, w2) \<Rightarrow> (Inr video_path, remove_files segment_videos w2))
             else (let concat_file = path_join OUTPUT_FOLDER (job_id @ ''_concat.txt'');
                       w2 = write_file concat_file (concat_list segment_videos) w1
                   in case subprocess_run env (FFmpeg_concat concat_file video_path) False w2 of
                        (Inl e, w3) \<Rightarrow> (Inl e, w3)
                      | (Inr rc, w3) \<Rightarrow>
                          if rc \<noteq> 0
                          then (case subprocess_run env (Cp (hd segment_videos) video_path)
                                       True w3 of
                                  (Inl e, w4) \<Rightarrow> (Inl e, w4)
                                | (Inr rc', w4) \<Rightarrow>
                                    (Inr video_path, remove_files segment_videos w4))
                          else (Inr video_path, remove_files segment_videos w3)))"

text \<open>The \<open>except\<close> handler builds one video from the first pair when there is one, does
  not look at how ffmpeg exits, and returns the video path either way.\<close>

definition combine_media_to_video ::
  "env \<Rightarrow> path list \<Rightarrow> path list \<Rightarrow> string \<Rightarrow> world \<Rightarrow> (exn + path) \<times> world" where
  "combine_media_to_video env audio_files image_files job_id w =
     (let video_path = path_join OUTPUT_FOLDER (job_id @ ''.mp4'')
      in case combine_media_try env audio_files image_files job_id w of
           (Inr p, w') \<Rightarrow> (Inr p, w')
         | (Inl e, w') \<Rightarrow>
             if audio_files \<noteq> [] \<and> image_files \<noteq> []
             then (case subprocess_run env
                          (FFmpeg_still (hd image_files) (hd audio_files) video_path) False w' of
                     (Inl e', w'') \<Rightarrow> (Inl e', w'')
                   | (Inr rc, w'') \<Rightarrow> (Inr video_path, w''))
             else (Inr video_path, w'))"

definition video_generation_failed :: "exn \<Rightarrow> exn" where
  "video_generation_failed e = Exception (''Video generation failed: '' @ exn_str e)"

definition process_video_generation ::
  "voice_service \<Rightarrow> env \<Rightarrow> pystr \<Rightarrow> pystr \<Rightarrow> string \<Rightarrow> world \<Rightarrow> (exn + path) \<times> world" where
  "process_video_generation vs env script voice_id job_id w =
     (let segments = split_script_into_segments script
      in case audio_loop vs env voice_id job_id 0 segments [] (emit (Stage Segmentation) w) of
           (Inl e, w1) \<Rightarrow> (Inl (video_generation_failed e), w1)
         | (Inr audio_files, w1) \<Rightarrow>
             (case image_loop env job_id 0 segments [] w1 of
                (Inl e, w2) \<Rightarrow> (Inl (video_generation_failed e), w2)
              | (Inr image_files, w2) \<Rightarrow>
                  (case combine_media_to_video env audio_files image_files job_id
                          (emit (Stage Assembly) w2) of
                     (Inl e, w3) \<Rightarrow> (Inl (video_generation_failed e), w3)
                   | (Inr video_path, w3) \<Rightarrow> (Inr video_path, w3))))"

text \<open>
  The request body: \<open>data.get('script', '')\<close> and \<open>data.get('voice_id', 'default')\<close> read
  keys that may be absent.  The response is the JSON of a completed job (status 200) or
  an error message with its HTTP status.
\<close>

record request =
  script_field :: "pystr option"
  voice_id_field :: "pystr option"

datatype response = Completed string | Error_response string nat

definition get_or :: "'a option \<Rightarrow> 'a \<Rightarrow> 'a" where
  "get_or field fallback = (case field of None \<Rightarrow> fallback | Some v \<Rightarrow> v)"

definition generate_video ::
  "voice_service \<Rightarrow> env \<Rightarrow> string \<Rightarrow> request \<Rightarrow> world \<Rightarrow> response \<times> world" where
  "generate_video vs env job_id req w =
     (let script = get_or (script_field req) [];
          voice_id = get_or (voice_id_field req) (str ''default'')
      in if script = [] then (Error_response ''Script is required'' 400, w)
         else case process_video_generation vs env script voice_id job_id w of
                (Inl e, w') \<Rightarrow> (Error_response (exn_str e) 500, w')
              | (Inr video_path, w') \<Rightarrow> (Completed job_id, w'))"

section \<open>Offline pipeline (offline\_ai\_service.py, offline\_video.py)\<close>

text \<open>
  The offline speech and image generators write a file with local libraries and return
  its path, or raise; saving the finished video writes a database row and returns its
  id, or raises.  The pipeline only uses their results, so they are read from a record
  of local models in the same way as the answers of the environment.
\<close>

record local_models =
  generate_speech_offline ::
    "world \<Rightarrow> pystr \<Rightarrow> pystr \<Rightarrow> (exn + path) \<times> (path \<rightharpoonup> bytes)"
  generate_image_offline ::
    "world \<Rightarrow> pystr \<Rightarrow> string \<Rightarrow> (exn + path) \<times> (path \<rightharpoonup> bytes)"
  save_generated_video ::
    "world \<Rightarrow> pystr \<Rightarrow> pystr \<Rightarrow> path \<Rightarrow> (exn + string) \<times> (path \<rightharpoonup> bytes)"

definition temp_dir :: path where
  "temp_dir = ''/tmp/offline_ai''"

definition create_video_segment ::
  "env \<Rightarrow> path \<Rightarrow> path \<Rightarrow> nat \<Rightarrow> world \<Rightarrow> (exn + path) \<times> world" where
  "create_video_segment env image_path audio_path index w =
     (let output_path = path_join temp_dir (''segment_'' @ show_nat index @ ''.mp4'')
      in case subprocess_run env (FFmpeg_still image_path audio_path output_path) False w of
           (Inl e, w') \<Rightarrow> (Inl e, w')
         | (Inr rc, w') \<Rightarrow> (Inr output_path, w'))"

text \<open>\<open>combine_video_segments\<close> returns \<open>None\<close> for no segments and the final path
  otherwise; it does not look at how \<open>cp\<close> or ffmpeg exit.\<close>

definition combine_video_segments ::
  "env \<Rightarrow> path list \<Rightarrow> world \<Rightarrow> (exn + path option) \<times> world" where
  "combine_video_segments env segments w =
     (let final_path = path_join temp_dir ''final_video.mp4''
      in if segments = [] then (Inr None, w)
         else if length segments = 1
         then (case subprocess_run env (Cp (hd segments) final_path) False w of
                 (Inl e, w') \<Rightarrow> (Inl e, w')
               | (Inr rc, w') \<Rightarrow> (Inr (Some final_path), w'))
         else (let concat_file = path_join temp_dir ''concat.txt'';
                   w1 = write_file concat_file
                          (concat_list (filter (path_exists w) segments)) w
               in case subprocess_run env (FFmpeg_concat concat_file final_path) False w1 of
                    (Inl e, w') \<Rightarrow> (Inl e, w')
                  | (Inr rc, w') \<Rightarrow> (Inr (Some final_path), w')))"

text \<open>The segment loop of \<open>OfflineAIService.generate_video_offline\<close>.\<close>

fun offline_segments ::
  "local_models \<Rightarrow> env \<Rightarrow> pystr \<Rightarrow> string \<Rightarrow> nat \<Rightarrow> pystr list \<Rightarrow> path list \<Rightarrow> world
     \<Rightarrow> (exn + path list) \<times> world" where
  "offline_segments lm env voice_id style i [] video_segments w = (Inr video_segments, w)"
| "offline_segments lm env voice_id style i (segment # rest) video_segments w =
     (let w0 = emit (Stage Audio_generation) w
      in case generate_speech_offline lm w0 segment voice_id of
           (Inl e, fs1) \<Rightarrow> (Inl e, w0\<lparr>files := fs1\<rparr>)
         | (Inr audio_path, fs1) \<Rightarrow>
             (let w1 = emit (Stage Image_generation) (w0\<lparr>files := fs1\<rparr>)
              in case generate_image_offline lm w1 segment style of
                   (Inl e, fs2) \<Rightarrow> (Inl e, w1\<lparr>files := fs2\<rparr>)
                 | (Inr image_path, fs2) \<Rightarrow>
                     (case create_video_segment env image_path audio_path i
                             (w1\<lparr>files := fs2\<rparr>) of
                        (Inl e, w2) \<Rightarrow> (Inl e, w2)
                      | (Inr segment_path, w2) \<Rightarrow>
                          offline_segments lm env voice_id style (i + 1) rest
                            (video_segments @ [segment_path]) w2)))"

text \<open>The service method: any exception in the \<open>try\<close> is printed and \<open>None\<close> is
  returned.\<close>

definition generate_video_offline ::
  "local_models \<Rightarrow> env \<Rightarrow> pystr \<Rightarrow> pystr \<Rightarrow> string \<Rightarrow> world \<Rightarrow> path option \<times> world" where
  "generate_video_offline lm env script voice_id style w =
     (case offline_segments lm env voice_id style 0 (split_script script) []
             (emit (Stage Segmentation) w) of
        (Inl e, w1) \<Rightarrow> (None, w1)
      | (Inr video_segments, w1) \<Rightarrow>
          (case combine_video_segments env video_segments (emit (Stage Assembly) w1) of
             (Inl e, w2) \<Rightarrow> (None, w2)
           | (Inr final_video, w2) \<Rightarrow> (final_video, w2)))"

record offline_request =
  offline_script :: "pystr option"
  offline_voice_id :: "pystr option"
  offline_style :: "string option"
  offline_title :: "pystr option"

text \<open>The route \<open>/generate-video-offline\<close>.\<close>

definition generate_video_offline_route ::
  "local_models \<Rightarrow> env \<Rightarrow> offline_request \<Rightarrow> world \<Rightarrow> response \<times> world" where
  "generate_video_offline_route lm env req w =
     (let script = get_or (offline_script req) [];
          voice_id = get_or (offline_voice_id req) (str ''default'');
          style = get_or (offline_style req) ''business'';
          title = get_or (offline_title req) (str ''Untitled Video'')
      in if script = [] then (Error_response ''Script is required'' 400, w)
         else case generate_video_offline lm env script voice_id style w of
                (None, w') \<Rightarrow> (Error_response ''Failed to generate video offline'' 500, w')
              | (Some video_path, w') \<Rightarrow>
                  if video_path \<noteq> [] \<and> path_exists w' video_path
                  then (case save_generated_video lm w' title script video_path of
                          (Inl e, fs) \<Rightarrow> (Error_response (exn_str e) 500, w'\<lparr>files := fs\<rparr>)
                        | (Inr video_id, fs) \<Rightarrow> (Completed video_id, w'\<lparr>files := fs\<rparr>))
                  else (Error_response ''Failed to generate video offline'' 500, w'))"

section \<open>Environments to evaluate the pipelines on\<close>

text \<open>
  In \<open>studio_env\<close> speech comes from the OpenAI fallback, images from the local colour
  render, every ffmpeg segment build succeeds and \<open>cp\<close> copies; only the ffmpeg
  concatenation exits with status 1 and writes nothing.  A segment's content names the
  audio it was built from, so segments can be told apart.  In \<open>no_mux_env\<close> the
  segment builds fail as well.  \<open>studio_models\<close> are local models that always succeed.
\<close>

definition studio_env :: env where
  "studio_env =
     \<lparr>elevenlabs = (\<lambda>w t v. Inl (Exception ''connection refused'')),
      openai_speech = (\<lambda>w t. Inr ''RIFF''),
      openai_image = (\<lambda>w p. Inl (Exception ''connection refused'')),
      requests_get = (\<lambda>w u. Inl (Exception ''connection refused'')),
      process = (\<lambda>w c. case c of
          FFmpeg_color col out \<Rightarrow> (Inr 0, (files w)(out \<mapsto> ''PNG''))
        | FFmpeg_anullsrc n out \<Rightarrow> (Inr 0, (files w)(out \<mapsto> ''RIFF''))
        | FFmpeg_still img aud out \<Rightarrow> (Inr 0, (files w)(out \<mapsto> ''MP4 of '' @ aud))
        | FFmpeg_concat lst out \<Rightarrow> (Inr 1, files w)
        | Cp src dst \<Rightarrow> (case files w src of
                            None \<Rightarrow> (Inr 1, files w)
                          | Some b \<Rightarrow> (Inr 0, (files w)(dst \<mapsto> b)))),
      py_hash = (\<lambda>s. 0)\<rparr>"

definition no_mux_env :: env where
  "no_mux_env =
     studio_env\<lparr>process := (\<lambda>w c. case c of
          FFmpeg_still img aud out \<Rightarrow> (Inr 1, files w)
        | _ \<Rightarrow> process studio_env w c)\<rparr>"

definition studio_models :: local_models where
  "studio_models =
     \<lparr>generate_speech_offline =
        (\<lambda>w t v. (Inr (''/tmp/offline_ai/speech_'' @ show_nat (length t) @ ''.wav''),
                   (files w)(''/tmp/offline_ai/speech_'' @ show_nat (length t) @ ''.wav''
                              \<mapsto> ''RIFF''))),
      generate_image_offline =
        (\<lambda>w t s. (Inr (''/tmp/offline_ai/image_'' @ show_nat (length t) @ ''.png''),
                   (files w)(''/tmp/offline_ai/image_'' @ show_nat (length t) @ ''.png''
                              \<mapsto> ''PNG''))),
      save_generated_video = (\<lambda>w title script p. (Inr ''video_1'', files w))\<rparr>"

section \<open>Properties of language detection\<close>

lemma strip_single: "(strip [c] \<noteq> []) = (\<not> py_isspace c)"
  by (simp add: strip_def)

lemma detect_loop_counts:
  "detect_loop s (d, t) = (d + matched_count s, t + total_count s)"
proof (induction s arbitrary: d t)
  case Nil
  show ?case by (simp add: matched_count_def total_count_def)
next
  case (Cons c cs)
  show ?case
    by (simp add: Cons.IH strip_single dzongkha_ranges_def matched_count_def total_count_def)
qed

lemma matched_le_total: "matched_count s \<le> total_count s"
  unfolding matched_count_def total_count_def
  by (induction s) auto

lemma match_ratio_bounds: "0 \<le> match_ratio s \<and> match_ratio s \<le> 1"
proof (cases "total_count s = 0")
  case True
  then show ?thesis by (simp add: match_ratio_def)
next
  case False
  have "(of_nat (matched_count s) :: rat) \<le> of_nat (total_count s)"
    using matched_le_total [of s] by (simp only: of_nat_le_iff)
  with False show ?thesis
    by (simp add: match_ratio_def divide_le_eq_1)
qed

lemma detect_language_unfold:
  "detect_language s =
     (if total_count s = 0 then \<lparr>language = ''unknown'', confidence = 0\<rparr>
      else if match_ratio s > 1 / 2
           then \<lparr>language = ''dz'', confidence = match_ratio s\<rparr>
           else \<lparr>language = ''other'', confidence = 1 - match_ratio s\<rparr>)"
  by (simp add: detect_language_def detect_loop_counts match_ratio_def Let_def)

text \<open>
  Claim C3.  \<open>detect_language\<close> is a function of the text alone.  With \<open>total\<close> the number
  of non-whitespace characters and \<open>matched\<close> the number of those in the Tibetan block:
  a total of 0 gives the label "unknown" with confidence 0; otherwise a ratio
  matched/total above 1/2 gives the label "dz" with the ratio as confidence, and any
  other ratio gives "other" with confidence 1 - ratio.  The confidence lies in [0, 1].
\<close>

theorem detect_language_spec:
  "detect_language s =
     (if total_count s = 0 then \<lparr>language = ''unknown'', confidence = 0\<rparr>
      else if match_ratio s > 1 / 2
           then \<lparr>language = ''dz'', confidence = match_ratio s\<rparr>
           else \<lparr>language = ''other'', confidence = 1 - match_ratio s\<rparr>)
   \<and> 0 \<le> confidence (detect_language s) \<and> confidence (detect_language s) \<le> 1"
  using match_ratio_bounds [of s]
  by (simp add: detect_language_unfold)

theorem detect_language_spec_witness:
  "detect_language [0x0F40, 0x0F56, 32, 97] = \<lparr>language = ''dz'', confidence = 2 / 3\<rparr>
   \<and> detect_language [0x0F40, 97, 98, 10] = \<lparr>language = ''other'', confidence = 2 / 3\<rparr>
   \<and> detect_language [32, 9, 10] = \<lparr>language = ''unknown'', confidence = 0\<rparr>"
  using detect_language_spec [of "[0x0F40, 0x0F56, 32, 97]"]
    detect_language_spec [of "[0x0F40, 97, 98, 10]"]
    detect_language_spec [of "[32, 9, 10]"]
  by (simp add: total_count_def matched_count_def match_ratio_def py_isspace_def)

lemma is_valid_iff_majority:
  "is_valid (validate_dzongkha_text s) = (total_count s < 2 * matched_count s)"
proof (cases "total_count s = 0")
  case True
  with matched_le_total [of s] show ?thesis
    by (simp add: validate_dzongkha_text_def Let_def detect_language_unfold)
next
  case False
  then have pos: "(0::rat) < of_nat (total_count s)" by simp
  have "(1 / 2 < match_ratio s) = (total_count s < 2 * matched_count s)"
  proof -
    have "(1 / 2 < match_ratio s) =
          ((of_nat (total_count s) :: rat) < of_nat (2 * matched_count s))"
      using pos by (simp add: match_ratio_def field_simps)
    then show ?thesis by (simp only: of_nat_less_iff)
  qed
  with False show ?thesis
    by (simp add: validate_dzongkha_text_def Let_def detect_language_unfold)
qed

text \<open>
  Claim C4.  For every text, \<open>validate_dzongkha_text\<close> reports \<open>is_valid\<close> exactly when
  \<open>detect_language\<close> labels the same text "dz", and it reports the confidence that
  \<open>detect_language\<close> reports.
\<close>

theorem validate_text_matches_detect_language:
  "is_valid (validate_dzongkha_text s) = (language (detect_language s) = ''dz'')
   \<and> valid_confidence (validate_dzongkha_text s) = confidence (detect_language s)"
  by (simp add: validate_dzongkha_text_def Let_def)

theorem validate_text_matches_detect_language_witness:
  "is_valid (validate_dzongkha_text [0x0F40, 0x0F56, 32, 97])
   \<and> valid_confidence (validate_dzongkha_text [0x0F40, 0x0F56, 32, 97]) = 2 / 3
   \<and> \<not> is_valid (validate_dzongkha_text [0x0F40, 97, 98, 10])
   \<and> valid_confidence (validate_dzongkha_text [0x0F40, 97, 98, 10]) = 2 / 3"
  using validate_text_matches_detect_language [of "[0x0F40, 0x0F56, 32, 97]"]
    validate_text_matches_detect_language [of "[0x0F40, 97, 98, 10]"]
  by (simp add: detect_language_unfold total_count_def matched_count_def match_ratio_def
      py_isspace_def)

lemma total_count_pos_iff: "(0 < total_count s) = (\<exists>c\<in>set s. \<not> py_isspace c)"
  by (simp add: total_count_def length_greater_0_conv filter_empty_conv)

text \<open>
  Claim C10.  For every text with at least one non-whitespace character the confidence
  that \<open>detect_language\<close> returns is at least 1/2; a confidence below 1/2 is returned only
  for a text of whitespace alone (the empty text included), where the result is
  "unknown" with confidence 0.
\<close>

theorem detect_language_confidence_at_least_half:
  "((\<exists>c\<in>set s. \<not> py_isspace c) \<longrightarrow> 1 / 2 \<le> confidence (detect_language s))
   \<and> (confidence (detect_language s) < 1 / 2 \<longrightarrow>
        (\<forall>c\<in>set s. py_isspace c)
        \<and> detect_language s = \<lparr>language = ''unknown'', confidence = 0\<rparr>)"
proof (cases "total_count s = 0")
  case True
  then have "\<forall>c\<in>set s. py_isspace c"
    using total_count_pos_iff [of s] by auto
  with True show ?thesis
    by (simp add: detect_language_unfold)
next
  case False
  then have some: "\<exists>c\<in>set s. \<not> py_isspace c"
    using total_count_pos_iff [of s] by simp
  have "1 / 2 \<le> confidence (detect_language s)"
    using False by (simp add: detect_language_unfold)
  with some show ?thesis by auto
qed

theorem detect_language_confidence_at_least_half_witness:
  "(\<exists>c\<in>set [0x0F40, 97, 98, 10]. \<not> py_isspace c)
   \<and> (1 / 2 :: rat) \<le> confidence (detect_language [0x0F40, 97, 98, 10])
   \<and> confidence (detect_language [32, 9, 10]) < 1 / 2
   \<and> list_all py_isspace [32, 9, 10]
   \<and> detect_language [32, 9, 10] = \<lparr>language = ''unknown'', confidence = 0\<rparr>"
proof -
  have a: "\<exists>c\<in>set [0x0F40, 97, 98, 10]. \<not> py_isspace c"
    by (simp add: py_isspace_def)
  have b: "confidence (detect_language [32, 9, 10]) < 1 / 2"
    by (simp add: detect_language_unfold total_count_def py_isspace_def)
  from a b show ?thesis
    using detect_language_confidence_at_least_half [of "[0x0F40, 97, 98, 10]"]
      detect_language_confidence_at_least_half [of "[32, 9, 10]"]
    by (simp add: py_isspace_def)
qed

section \<open>Properties of the synthetic tone speech\<close>

lemma length_char_frames:
  "length (char_frames c) = (if py_isspace c then 2205 else 3307)"
  by (simp add: char_frames_def strip_single tone_samples_def silence_samples_def
      sample_rate_def split: prod.split)

lemma length_synthetic_frames:
  "length (frames (generate_synthetic_dzongkha_speech s)) =
     3307 * total_count s + 2205 * (length s - total_count s)"
proof -
  have "length (concat (map char_frames s)) =
          3307 * total_count s + 2205 * (length s - total_count s)"
  proof (induction s)
    case Nil
    show ?case by (simp add: total_count_def)
  next
    case (Cons c cs)
    have le: "length (filter (\<lambda>c. \<not> py_isspace c) cs) \<le> length cs"
      by (rule length_filter_le)
    show ?case
      using Cons.IH le
      by (simp add: length_char_frames total_count_def Suc_diff_le)
  qed
  then show ?thesis by (simp add: generate_synthetic_dzongkha_speech_def)
qed

lemma synthetic_frames_linear_bounds:
  "2205 * length s \<le> length (frames (generate_synthetic_dzongkha_speech s))
   \<and> length (frames (generate_synthetic_dzongkha_speech s)) \<le> 3307 * length s"
proof -
  have "total_count s \<le> length s"
    unfolding total_count_def by (rule length_filter_le)
  then show ?thesis
    unfolding length_synthetic_frames by arith
qed

lemma char_tone_bands:
  "char_tone c =
     (if 0x0F00 \<le> c \<and> c \<le> 0x0FFF then (230 + c mod 100, High) else (180 + c mod 30, Low))"
  by (simp add: char_tone_def base_freq_def)

text \<open>
  Claim C5 asks for three frequency bands, each tone branch taken on some input.  The
  mid-tone branch tests U+0F40..U+0F6C after the high-tone branch has taken all of
  U+0F00..U+0FFF: the letter U+0F40 gets the high tone at 234 Hz (the mid-tone formula
  would give 209 Hz), and no code point at all gets the mid tone.
\<close>

theorem synthetic_speech_mid_tone_never_taken:
  "char_tone 0x0F40 = (234, High) \<and> (\<forall>c. snd (char_tone c) \<noteq> Mid)"
  by (simp add: char_tone_def base_freq_def)

section \<open>Properties of the voice service\<close>

lemma trace_generate_with_fallback:
  "trace (snd (generate_with_fallback env t v out w)) =
     trace w @ Remote (OpenAI_speech t) #
       (case openai_speech env w t of Inr a \<Rightarrow> [] | Inl e \<Rightarrow> [Run (FFmpeg_anullsrc (length t) out)])"
  by (simp add: generate_with_fallback_def subprocess_run_def emit_def write_file_def Let_def
      split: sum.split prod.split)

lemma new_events_generate_with_fallback:
  "new_events w (snd (generate_with_fallback env t v out w)) =
     Remote (OpenAI_speech t) #
       (case openai_speech env w t of Inr a \<Rightarrow> [] | Inl e \<Rightarrow> [Run (FFmpeg_anullsrc (length t) out)])"
  by (simp add: new_events_def trace_generate_with_fallback)

lemma new_events_generate_with_elevenlabs:
  "new_events w (snd (generate_with_elevenlabs env t v out w)) =
     Remote (ElevenLabs_generate t v) #
       (case elevenlabs env w t v of
          Inr a \<Rightarrow> []
        | Inl e \<Rightarrow> new_events (emit (Remote (ElevenLabs_generate t v)) w)
                    (snd (generate_with_fallback env t v out
                            (emit (Remote (ElevenLabs_generate t v)) w))))"
  by (simp add: generate_with_elevenlabs_def new_events_def trace_generate_with_fallback
      emit_def write_file_def split: sum.split)

text \<open>How \<open>generate_speech\<close> routes, for every environment and world: an id that starts
  with "fallback_" is never sent to ElevenLabs, and with the client configured any
  other id is sent to ElevenLabs first.\<close>

lemma generate_speech_routes_by_prefix:
  "(prefix (str ''fallback_'') v \<longrightarrow>
      filter is_elevenlabs_call
        (new_events w (snd (generate_speech self env t v out w))) = [])
   \<and> (client self \<and> \<not> prefix (str ''fallback_'') v \<longrightarrow>
      take 1 (new_events w (snd (generate_speech self env t v out w))) =
        [Remote (ElevenLabs_generate t v)])"
  by (simp add: generate_speech_def new_events_generate_with_fallback
      new_events_generate_with_elevenlabs is_elevenlabs_call_def split: sum.split)

lemma generate_speech_without_client:
  "\<not> client self \<Longrightarrow>
     filter is_elevenlabs_call
       (new_events w (snd (generate_speech self env t v out w))) = []"
  by (simp add: generate_speech_def new_events_generate_with_fallback
      is_elevenlabs_call_def split: sum.split)

text \<open>An id that starts with "fallback_", and any id when there is no client, goes to
  the fallback provider: the OpenAI speech request is the first event.\<close>

lemma fallback_id_goes_to_fallback_provider:
  "prefix (str ''fallback_'') v \<or> \<not> client self \<Longrightarrow>
     take 1 (new_events w (snd (generate_speech self env t v out w))) =
       [Remote (OpenAI_speech t)]"
  by (auto simp: generate_speech_def new_events_generate_with_fallback)

text \<open>The fallback provider never uses the voice id: the request carries the text
  alone (the voice is always "alloy"), so the result does not depend on the id.\<close>

lemma generate_with_fallback_ignores_voice_id:
  "generate_with_fallback env t v out w = generate_with_fallback env t v' out w"
  by (simp add: generate_with_fallback_def)

lemma fallback_voices_are_listed:
  "set fallback_voices \<subseteq> set (list_available_voices self get_all)"
  unfolding list_available_voices_def set_append by (rule Un_upper2)

lemma fallback_voices_service:
  "e \<in> set fallback_voices \<Longrightarrow>
     entry_service e = ''openai'' \<and> \<not> prefix (str ''fallback_'') (entry_id e)"
  unfolding fallback_voices_def by (auto simp: str_def)

text \<open>
  Claim C9 asks that a text-to-speech call with a known voice id goes to the provider
  that owns the id.  \<open>list_available_voices\<close> always lists \<open>openai_alloy\<close>, one of its
  "fallback voices", with the service \<open>openai\<close>.  \<open>generate_speech\<close> keeps only the
  ids that start with "fallback_" away from ElevenLabs: with the client configured the
  first thing the call does with \<open>openai_alloy\<close> is to send it to ElevenLabs, and when
  ElevenLabs answers, its audio is what the output file holds and OpenAI is never
  asked.
\<close>

theorem listed_openai_voice_sent_to_elevenlabs:
  "\<lparr>entry_id = str ''openai_alloy'', entry_name = str ''Alloy (OpenAI)'', entry_service = ''openai''\<rparr>
     \<in> set (list_available_voices self get_all)
   \<and> take 1 (new_events w (snd (generate_speech \<lparr>client = True\<rparr> env t (str ''openai_alloy'')
                                   out w))) =
       [Remote (ElevenLabs_generate t (str ''openai_alloy''))]
   \<and> generate_speech \<lparr>client = True\<rparr>
        (offline_env\<lparr>elevenlabs := (\<lambda>w t v. Inr ''ID3'')\<rparr>) (str ''Hi'') (str ''openai_alloy'')
        ''a.wav'' empty_world =
      (Inr ''a.wav'',
       \<lparr>files = [''a.wav'' \<mapsto> ''ID3''],
        trace = [Remote (ElevenLabs_generate (str ''Hi'') (str ''openai_alloy''))]\<rparr>)"
proof -
  have "\<lparr>entry_id = str ''openai_alloy'', entry_name = str ''Alloy (OpenAI)'',
      entry_service = ''openai''\<rparr> \<in> set fallback_voices"
    by (simp add: fallback_voices_def)
  then have listed: "\<lparr>entry_id = str ''openai_alloy'', entry_name = str ''Alloy (OpenAI)'',
      entry_service = ''openai''\<rparr> \<in> set (list_available_voices self get_all)"
    using fallback_voices_are_listed by (rule subsetD [rotated])
  have np: "\<not> prefix (str ''fallback_'') (str ''openai_alloy'')"
    by (simp add: str_def)
  have first: "take 1 (new_events w (snd (generate_speech \<lparr>client = True\<rparr> env t
      (str ''openai_alloy'') out w))) = [Remote (ElevenLabs_generate t (str ''openai_alloy''))]"
    using np by (simp add: generate_speech_def new_events_generate_with_elevenlabs)
  have served: "generate_speech \<lparr>client = True\<rparr>
        (offline_env\<lparr>elevenlabs := (\<lambda>w t v. Inr ''ID3'')\<rparr>) (str ''Hi'') (str ''openai_alloy'')
        ''a.wav'' empty_world =
      (Inr ''a.wav'',
       \<lparr>files = [''a.wav'' \<mapsto> ''ID3''],
        trace = [Remote (ElevenLabs_generate (str ''Hi'') (str ''openai_alloy''))]\<rparr>)"
    using np
    by (simp add: generate_speech_def generate_with_elevenlabs_def offline_env_def
        empty_world_def emit_def write_file_def)
  from listed first served show ?thesis by blast
qed

section \<open>Properties of the image service\<close>

lemma generate_image_enters_fallback:
  "remote_failed env p style w \<Longrightarrow>
     generate_image_from_text env p out style w =
       generate_fallback_image env p out (remote_attempted env p style w)"
  by (auto simp: remote_failed_def generate_image_from_text_def remote_attempted_def Let_def
      split: sum.splits prod.splits)

lemma remote_attempted_files: "files (remote_attempted env p style w) = files w"
  by (simp add: remote_attempted_def emit_def Let_def split: sum.split)

text \<open>
  Claim C2 as stated fails: with the image provider down and ffmpeg exiting with
  status 1 on both local renders, \<open>generate_image_from_text\<close> raises the
  \<open>CalledProcessError\<close> of the last render and writes no file.
\<close>

theorem generate_image_raises_when_renders_fail:
  "remote_failed offline_env (str ''A cat'') ''realistic'' empty_world
   \<and> fst (generate_image_from_text offline_env (str ''A cat'') ''out.png'' ''realistic''
            empty_world) = Inl (CalledProcessError 1)
   \<and> files (snd (generate_image_from_text offline_env (str ''A cat'') ''out.png'' ''realistic''
                   empty_world)) ''out.png'' = None"
  by (simp add: remote_failed_def generate_image_from_text_def generate_fallback_image_def
      subprocess_run_def offline_env_def empty_world_def emit_def Let_def)

text \<open>
  Claim C2, amended.  For every text prompt and every provider failure (the image
  request raises, the download raises, or the download's status is not 200) the call
  falls back to a local ffmpeg render.  If the render of the hash-coloured frame exits
  with status 0, or it fails and the render of the black frame exits with status 0, the
  call does not raise: it returns the output path and leaves the files as that ffmpeg
  run left them.  Only when both renders fail does the call raise, with the error of
  the black-frame render.
\<close>

theorem generate_image_falls_back_to_local_render:
  assumes "remote_failed env p style w"
  shows "generate_image_from_text env p out style w =
     (let w1 = remote_attempted env p style w;
          hashed = FFmpeg_color (color_hex (nat (py_hash env p mod 16777215))) out;
          black = FFmpeg_color ''black'' out;
          w2 = \<lparr>files = snd (process env w1 hashed), trace = trace w1 @ [Run hashed]\<rparr>;
          w3 = \<lparr>files = snd (process env w2 black), trace = trace w2 @ [Run black]\<rparr>
      in if fst (process env w1 hashed) = Inr 0 then (Inr out, w2)
         else if fst (process env w2 black) = Inr 0 then (Inr out, w3)
         else (case fst (process env w2 black) of
                 Inl e \<Rightarrow> (Inl e, w3)
               | Inr rc \<Rightarrow> (Inl (CalledProcessError rc), w3)))"
  unfolding generate_image_enters_fallback [OF assms]
  by (auto simp: generate_fallback_image_def subprocess_run_def Let_def
      split: sum.splits prod.splits)

theorem generate_image_falls_back_to_local_render_witness:
  "remote_failed black_only_env (str ''A cat'') ''realistic'' empty_world
   \<and> fst (generate_image_from_text black_only_env (str ''A cat'') ''out.png'' ''realistic''
            empty_world) = Inr ''out.png''
   \<and> files (snd (generate_image_from_text black_only_env (str ''A cat'') ''out.png''
                   ''realistic'' empty_world)) ''out.png'' = Some ''PNG''"
proof -
  have failed: "remote_failed black_only_env (str ''A cat'') ''realistic'' empty_world"
    by (simp add: remote_failed_def black_only_env_def offline_env_def Let_def)
  show ?thesis
    using failed generate_image_falls_back_to_local_render [OF failed, of "''out.png''"]
    by (simp add: black_only_env_def offline_env_def empty_world_def remote_attempted_def
        emit_def color_hex_def hex_digit_def Let_def)
qed

section \<open>Properties of scene segmentation\<close>

lemma split_script_into_segments_nonempty: "split_script_into_segments script \<noteq> []"
  by (simp add: split_script_into_segments_def Let_def split: prod.split)

lemma join_sentences_blank:
  "\<forall>s\<in>set sentences. strip s = [] \<Longrightarrow>
     join_sentences sentences segments current_segment = (segments, current_segment)"
  by (induction sentences) (simp_all add: Let_def)

lemma split_script_into_segments_blank:
  "\<forall>s\<in>set (re_split_terminators False [] script). strip s = [] \<Longrightarrow>
     split_script_into_segments script = [script]"
  by (simp add: split_script_into_segments_def join_sentences_blank strip_def)

lemma split_script_into_segments_empty:
  "split_script_into_segments [] = [[]] \<and> split_script_into_segments (str ''   '') = [str ''   '']"
  by (simp add: split_script_into_segments_def strip_def str_def py_isspace_def is_terminator_def)

text \<open>
  Claim C1 asks that segmentation never returns an empty sequence, and that a script
  with no non-empty sentence yields one scene holding the whole script.  The splitter
  of video.py does so (\<open>split_script_into_segments_nonempty\<close>,
  \<open>split_script_into_segments_blank\<close>), and so does \<open>_parse_script_into_scenes\<close> when
  the model's answer has no \<open>scenes\<close> key.  Its fallback after a failed request does
  not: for the empty script and for a script of spaces it returns no scene at all.
\<close>

theorem parse_script_into_scenes_empty_fallback:
  "parse_script_into_scenes Request_failed [] = []
   \<and> parse_script_into_scenes Request_failed (str ''   '') = []
   \<and> parse_script_into_scenes No_scenes_key [] = [\<lparr>scene_text = [], visual_description = []\<rparr>]"
  by (simp add: parse_script_into_scenes_def strip_def str_def py_isspace_def)

section \<open>Properties of the pipelines\<close>

lemmas world_defs = emit_def write_file_def path_exists_def subprocess_run_def remove_files_def
  empty_world_def

lemmas path_defs = OUTPUT_FOLDER_def temp_dir_def path_join_def show_nat.simps

text \<open>
  Claim C8.  A request whose script is the empty string, or that has no script at all
  (the default is the empty string), is answered at once with the validation error
  "Script is required" and status 400, by the online route and by the offline route.
  The world is returned as it was received: no stage marker and no external call was
  added to the trace, and no file was touched.
\<close>

theorem empty_script_fails_fast:
  "generate_video vs env job_id \<lparr>script_field = Some [], voice_id_field = v\<rparr> w =
     (Error_response ''Script is required'' 400, w)
   \<and> generate_video vs env job_id \<lparr>script_field = None, voice_id_field = v\<rparr> w =
     (Error_response ''Script is required'' 400, w)
   \<and> generate_video_offline_route lm env
       \<lparr>offline_script = Some [], offline_voice_id = v, offline_style = st,
        offline_title = ti\<rparr> w =
     (Error_response ''Script is required'' 400, w)
   \<and> generate_video_offline_route lm env
       \<lparr>offline_script = None, offline_voice_id = v, offline_style = st,
        offline_title = ti\<rparr> w =
     (Error_response ''Script is required'' 400, w)"
  by (simp add: generate_video_def generate_video_offline_route_def get_or_def)

theorem empty_script_fails_fast_witness:
  "generate_video \<lparr>client = True\<rparr> studio_env ''job''
     \<lparr>script_field = Some [], voice_id_field = None\<rparr> empty_world =
     (Error_response ''Script is required'' 400, empty_world)
   \<and> trace (snd (generate_video_offline_route studio_models studio_env
       \<lparr>offline_script = Some [], offline_voice_id = None, offline_style = None,
        offline_title = None\<rparr> empty_world)) = []"
  using empty_script_fails_fast
    [of "\<lparr>client = True\<rparr>" studio_env "''job''" None empty_world studio_models None None]
  by (simp add: empty_world_def)

text \<open>
  Claim C6 asks that a failed concatenation leaves the first segment as the final
  video.  \<open>combine_media_to_video\<close> of video.py does that.  \<open>combine_video_segments\<close>
  of the offline service never reads ffmpeg's exit status: with two segments built and
  the concatenation exiting with status 1 it returns the final path although no file
  is there, and the route answers with the error "Failed to generate video offline".
\<close>

theorem offline_concat_failure_fails_job:
  "fst (generate_video_offline_route studio_models studio_env
          \<lparr>offline_script = Some (str ''Hi there. You''), offline_voice_id = None,
           offline_style = None, offline_title = None\<rparr> empty_world) =
     Error_response ''Failed to generate video offline'' 500
   \<and> fst (combine_video_segments studio_env
            [''/tmp/offline_ai/segment_0.mp4'', ''/tmp/offline_ai/segment_1.mp4'']
            \<lparr>files = [''/tmp/offline_ai/segment_0.mp4'' \<mapsto> ''MP4 of a'',
                      ''/tmp/offline_ai/segment_1.mp4'' \<mapsto> ''MP4 of b''], trace = []\<rparr>) =
     Inr (Some ''/tmp/offline_ai/final_video.mp4'')
   \<and> files (snd (combine_video_segments studio_env
            [''/tmp/offline_ai/segment_0.mp4'', ''/tmp/offline_ai/segment_1.mp4'']
            \<lparr>files = [''/tmp/offline_ai/segment_0.mp4'' \<mapsto> ''MP4 of a'',
                      ''/tmp/offline_ai/segment_1.mp4'' \<mapsto> ''MP4 of b''], trace = []\<rparr>))
       ''/tmp/offline_ai/final_video.mp4'' = None"
  by (simp add: generate_video_offline_route_def generate_video_offline_def
      combine_video_segments_def create_video_segment_def split_script_def
      studio_env_def studio_models_def world_defs path_defs concat_list_def
      get_or_def strip_def str_def py_isspace_def is_terminator_def Let_def)

lemma online_concat_failure_keeps_first_segment:
  "fst (combine_media_to_video studio_env [''a0.wav'', ''a1.wav''] [''i0.png'', ''i1.png''] ''job''
          \<lparr>files = [''a0.wav'' \<mapsto> ''RIFF'', ''a1.wav'' \<mapsto> ''RIFF'',
                    ''i0.png'' \<mapsto> ''PNG'', ''i1.png'' \<mapsto> ''PNG''], trace = []\<rparr>) =
     Inr ''/tmp/outputs/job.mp4''
   \<and> files (snd (combine_media_to_video studio_env [''a0.wav'', ''a1.wav'']
                   [''i0.png'', ''i1.png''] ''job''
          \<lparr>files = [''a0.wav'' \<mapsto> ''RIFF'', ''a1.wav'' \<mapsto> ''RIFF'',
                    ''i0.png'' \<mapsto> ''PNG'', ''i1.png'' \<mapsto> ''PNG''], trace = []\<rparr>))
       ''/tmp/outputs/job.mp4'' = Some ''MP4 of a0.wav''"
  by (simp add: combine_media_to_video_def combine_media_try_def studio_env_def
      world_defs path_defs concat_list_def Let_def)

text \<open>
  Claim C7 asks that a job with no usable segment fails, the caller receiving an error.
  In video.py the exception raised for that case is caught by the handler of the same
  function, which returns the video path whatever happened.  For a script of one
  space no audio and no image is made, nothing is assembled, and the route
  answers "completed" in every environment.  When every segment build exits with
  status 1 the route also answers "completed", and no video file exists.
\<close>

theorem no_segments_still_completed:
  "generate_video vs env job_id \<lparr>script_field = Some (str '' ''), voice_id_field = v\<rparr> w =
     (Completed job_id, w\<lparr>trace := trace w @ [Stage Segmentation, Stage Assembly]\<rparr>)
   \<and> fst (generate_video \<lparr>client = False\<rparr> no_mux_env ''job''
            \<lparr>script_field = Some (str ''Hi there. You''), voice_id_field = None\<rparr> empty_world) =
     Completed ''job''
   \<and> files (snd (generate_video \<lparr>client = False\<rparr> no_mux_env ''job''
            \<lparr>script_field = Some (str ''Hi there. You''), voice_id_field = None\<rparr> empty_world))
       ''/tmp/outputs/job.mp4'' = None"
proof -
  have blank: "split_script_into_segments (str '' '') = [str '' '']"
    by (simp add: split_script_into_segments_def strip_def str_def py_isspace_def
        is_terminator_def)
  have a: "generate_video vs env job_id \<lparr>script_field = Some (str '' ''), voice_id_field = v\<rparr> w =
     (Completed job_id, w\<lparr>trace := trace w @ [Stage Segmentation, Stage Assembly]\<rparr>)"
    by (simp add: generate_video_def process_video_generation_def
        blank [unfolded str_def, simplified] get_or_def combine_media_to_video_def
        combine_media_try_def emit_def strip_def str_def py_isspace_def Let_def)
  have segs: "split_script_into_segments (str ''Hi there. You'') = [str ''Hi there. You'']"
    by (simp add: split_script_into_segments_def strip_def str_def py_isspace_def
        is_terminator_def Let_def)
  have b: "fst (generate_video \<lparr>client = False\<rparr> no_mux_env ''job''
            \<lparr>script_field = Some (str ''Hi there. You''), voice_id_field = None\<rparr> empty_world) =
      Completed ''job''
     \<and> files (snd (generate_video \<lparr>client = False\<rparr> no_mux_env ''job''
            \<lparr>script_field = Some (str ''Hi there. You''), voice_id_field = None\<rparr> empty_world))
       ''/tmp/outputs/job.mp4'' = None"
    by (simp add: generate_video_def process_video_generation_def
        segs [unfolded str_def, simplified] get_or_def combine_media_to_video_def
        combine_media_try_def
        generate_speech_def generate_with_fallback_def generate_image_from_text_def
        generate_fallback_image_def enhance_prompt_def style_modifier_def color_hex_def
        hex_digit_def no_mux_env_def studio_env_def world_defs path_defs
        strip_def str_def py_isspace_def Let_def)
  from a b show ?thesis by blast
qed

section \<open>The trace only grows\<close>

text \<open>Every operation of the pipelines extends the trace it is given: a fact \<open>t\<close> is a
  prefix of the trace before an operation stays one after it.\<close>

lemma trace_write_file: "trace (write_file p b w) = trace w"
  by (simp add: write_file_def)

lemma trace_remove_files: "trace (remove_files ps w) = trace w"
  by (simp add: remove_files_def)

lemma emit_mono: "prefix t (trace w) \<Longrightarrow> prefix t (trace (emit e w))"
  by (simp add: emit_def prefix_prefix)

lemma subprocess_run_mono:
  "subprocess_run env c chk w = (r, w') \<Longrightarrow> prefix t (trace w) \<Longrightarrow> prefix t (trace w')"
  by (auto simp: subprocess_run_def Let_def prefix_prefix split: prod.splits sum.splits if_splits)

lemma generate_with_fallback_mono:
  "generate_with_fallback env tx v out w = (r, w') \<Longrightarrow> prefix t (trace w) \<Longrightarrow>
     prefix t (trace w')"
  by (auto simp: generate_with_fallback_def trace_write_file
      split: sum.splits prod.splits intro!: emit_mono elim: subprocess_run_mono)

lemma generate_speech_mono:
  "generate_speech vs env tx v out w = (r, w') \<Longrightarrow> prefix t (trace w) \<Longrightarrow>
     prefix t (trace w')"
  by (auto simp: generate_speech_def generate_with_elevenlabs_def trace_write_file
      split: if_splits sum.splits intro!: emit_mono elim: generate_with_fallback_mono)

lemma generate_fallback_image_mono:
  "generate_fallback_image env p out w = (r, w') \<Longrightarrow> prefix t (trace w) \<Longrightarrow>
     prefix t (trace w')"
  by (auto simp: generate_fallback_image_def Let_def split: sum.splits prod.splits
      elim: subprocess_run_mono)

lemma generate_image_mono:
  "generate_image_from_text env p out style w = (r, w') \<Longrightarrow> prefix t (trace w) \<Longrightarrow>
     prefix t (trace w')"
  by (auto simp: generate_image_from_text_def Let_def trace_write_file
      split: sum.splits prod.splits if_splits
      intro!: emit_mono elim: generate_fallback_image_mono)

lemma audio_loop_mono:
  "audio_loop vs env v job i segs acc w = (r, w') \<Longrightarrow> prefix t (trace w) \<Longrightarrow>
     prefix t (trace w')"
proof (induction segs arbitrary: i acc w)
  case Nil
  then show ?case by simp
next
  case (Cons s segs)
  show ?case
  proof (cases "strip s \<noteq> []")
    case False
    with Cons.prems Cons.IH show ?thesis by simp
  next
    case True
    obtain r1 w1 where g: "generate_speech vs env s v
        (path_join OUTPUT_FOLDER (job @ ''_audio_'' @ show_nat i @ ''.wav''))
        (emit (Stage Audio_generation) w) = (r1, w1)"
      by (cases "generate_speech vs env s v
        (path_join OUTPUT_FOLDER (job @ ''_audio_'' @ show_nat i @ ''.wav''))
        (emit (Stage Audio_generation) w)") blast
    have p1: "prefix t (trace w1)"
      using g emit_mono [OF Cons.prems(2)] by (rule generate_speech_mono)
    show ?thesis
    proof (cases r1)
      case (Inl e)
      with Cons.prems(1) True g p1 show ?thesis by (simp add: Let_def)
    next
      case (Inr q)
      with Cons.prems(1) True g have
        "audio_loop vs env v job (i + 1) segs
           (acc @ [path_join OUTPUT_FOLDER (job @ ''_audio_'' @ show_nat i @ ''.wav'')]) w1 =
         (r, w')"
        by (simp add: Let_def)
      then show ?thesis using p1 by (rule Cons.IH)
    qed
  qed
qed

lemma image_loop_mono:
  "image_loop env job i segs acc w = (r, w') \<Longrightarrow> prefix t (trace w) \<Longrightarrow>
     prefix t (trace w')"
proof (induction segs arbitrary: i acc w)
  case Nil
  then show ?case by simp
next
  case (Cons s segs)
  show ?case
  proof (cases "strip s \<noteq> []")
    case False
    with Cons.prems Cons.IH show ?thesis by simp
  next
    case True
    obtain r1 w1 where g: "generate_image_from_text env s
        (path_join OUTPUT_FOLDER (job @ ''_image_'' @ show_nat i @ ''.png'')) ''realistic''
        (emit (Stage Image_generation) w) = (r1, w1)"
      by (cases "generate_image_from_text env s
        (path_join OUTPUT_FOLDER (job @ ''_image_'' @ show_nat i @ ''.png'')) ''realistic''
        (emit (Stage Image_generation) w)") blast
    have p1: "prefix t (trace w1)"
      using g emit_mono [OF Cons.prems(2)] by (rule generate_image_mono)
    show ?thesis
    proof (cases r1)
      case (Inl e)
      with Cons.prems(1) True g p1 show ?thesis by (simp add: Let_def)
    next
      case (Inr q)
      with Cons.prems(1) True g have
        "image_loop env job (i + 1) segs
           (acc @ [path_join OUTPUT_FOLDER (job @ ''_image_'' @ show_nat i @ ''.png'')]) w1 =
         (r, w')"
        by (simp add: Let_def)
      then show ?thesis using p1 by (rule Cons.IH)
    qed
  qed
qed

lemma build_segments_mono:
  "build_segments env job i pairs acc w = (r, w') \<Longrightarrow> prefix t (trace w) \<Longrightarrow>
     prefix t (trace w')"
proof (induction pairs arbitrary: i acc w)
  case Nil
  then show ?case by simp
next
  case (Cons pr pairs)
  obtain a im where pr: "pr = (a, im)" by (cases pr)
  show ?case
  proof (cases "path_exists w a \<and> path_exists w im")
    case False
    with Cons.prems Cons.IH pr show ?thesis by auto
  next
    case True
    obtain r1 w1 where g: "subprocess_run env
        (FFmpeg_still im a (path_join OUTPUT_FOLDER (job @ ''_segment_'' @ show_nat i @ ''.mp4'')))
        False w = (r1, w1)"
      by (cases "subprocess_run env
        (FFmpeg_still im a (path_join OUTPUT_FOLDER (job @ ''_segment_'' @ show_nat i @ ''.mp4'')))
        False w") blast
    have p1: "prefix t (trace w1)"
      using g Cons.prems(2) by (rule subprocess_run_mono)
    show ?thesis
    proof (cases r1)
      case (Inl e)
      with Cons.prems(1) True g p1 pr show ?thesis by (simp add: Let_def)
    next
      case (Inr rc)
      with Cons.prems(1) True g pr have
        "\<exists>acc'. build_segments env job (i + 1) pairs acc' w1 = (r, w')"
        by (auto simp: Let_def split: if_splits)
      then show ?thesis using p1 Cons.IH by blast
    qed
  qed
qed

lemma combine_media_try_mono:
  "combine_media_try env audio images job w = (r, w') \<Longrightarrow> prefix t (trace w) \<Longrightarrow>
     prefix t (trace w')"
  by (auto simp: combine_media_try_def Let_def trace_write_file trace_remove_files
      split: if_splits sum.splits prod.splits
      dest!: build_segments_mono [where t = t]
      elim!: subprocess_run_mono [where t = t])

lemma combine_media_to_video_mono:
  "combine_media_to_video env audio images job w = (r, w') \<Longrightarrow> prefix t (trace w) \<Longrightarrow>
     prefix t (trace w')"
  by (auto simp: combine_media_to_video_def Let_def
      split: if_splits sum.splits prod.splits
      dest!: combine_media_try_mono [where t = t]
      elim!: subprocess_run_mono [where t = t])

lemma process_video_generation_mono:
  "process_video_generation vs env script v job w = (r, w') \<Longrightarrow>
     prefix (trace w @ [Stage Segmentation]) (trace w')"
proof -
  assume run: "process_video_generation vs env script v job w = (r, w')"
  let ?t = "trace w @ [Stage Segmentation]"
  let ?segs = "split_script_into_segments script"
  have t0: "prefix ?t (trace (emit (Stage Segmentation) w))"
    by (simp add: emit_def)
  obtain ra wa where a: "audio_loop vs env v job 0 ?segs [] (emit (Stage Segmentation) w) = (ra, wa)"
    by (cases "audio_loop vs env v job 0 ?segs [] (emit (Stage Segmentation) w)") blast
  have pa: "prefix ?t (trace wa)"
    using a t0 by (rule audio_loop_mono)
  show ?thesis
  proof (cases ra)
    case (Inl e)
    with run a pa show ?thesis
      by (simp add: process_video_generation_def Let_def)
  next
    case audio: (Inr audio_files)
    obtain ri wi where i: "image_loop env job 0 ?segs [] wa = (ri, wi)"
      by (cases "image_loop env job 0 ?segs [] wa") blast
    have pi: "prefix ?t (trace wi)"
      using i pa by (rule image_loop_mono)
    show ?thesis
    proof (cases ri)
      case (Inl e)
      with run a audio i pi show ?thesis
        by (simp add: process_video_generation_def Let_def)
    next
      case images: (Inr image_files)
      obtain rc wc where c: "combine_media_to_video env audio_files image_files job
          (emit (Stage Assembly) wi) = (rc, wc)"
        by (cases "combine_media_to_video env audio_files image_files job
          (emit (Stage Assembly) wi)") blast
      have pc: "prefix ?t (trace wc)"
        using c emit_mono [OF pi] by (rule combine_media_to_video_mono)
      with run a audio i images c show ?thesis
        by (auto simp: process_video_generation_def Let_def split: sum.splits)
    qed
  qed
qed

text \<open>A non-empty script does start the pipeline: the segmentation marker is the next
  event on the trace.\<close>

lemma nonempty_script_enters_segmentation:
  "script \<noteq> [] \<Longrightarrow>
     prefix (trace w @ [Stage Segmentation])
       (trace (snd (generate_video vs env job_id
          \<lparr>script_field = Some script, voice_id_field = v\<rparr> w)))"
  by (auto simp: generate_video_def get_or_def Let_def split: prod.splits sum.splits
      dest: process_video_generation_mono)

lemma create_video_segment_mono:
  "create_video_segment env im a i w = (r, w') \<Longrightarrow> prefix t (trace w) \<Longrightarrow>
     prefix t (trace w')"
  by (auto simp: create_video_segment_def Let_def split: sum.splits prod.splits
      elim: subprocess_run_mono)

lemma combine_video_segments_mono:
  "combine_video_segments env segs w = (r, w') \<Longrightarrow> prefix t (trace w) \<Longrightarrow>
     prefix t (trace w')"
  by (auto simp: combine_video_segments_def Let_def trace_write_file
      split: if_splits sum.splits prod.splits
      elim!: subprocess_run_mono [where t = t])

lemma offline_segments_mono:
  "offline_segments lm env v style i segs acc w = (r, w') \<Longrightarrow> prefix t (trace w) \<Longrightarrow>
     prefix t (trace w')"
proof (induction segs arbitrary: i acc w)
  case Nil
  then show ?case by simp
next
  case (Cons s segs)
  let ?w0 = "emit (Stage Audio_generation) w"
  have p0: "prefix t (trace ?w0)"
    using Cons.prems(2) by (rule emit_mono)
  obtain ra fs1 where a: "generate_speech_offline lm ?w0 s v = (ra, fs1)"
    by (cases "generate_speech_offline lm ?w0 s v") blast
  show ?case
  proof (cases ra)
    case (Inl e)
    with Cons.prems(1) a p0 show ?thesis by (auto simp: Let_def)
  next
    case audio: (Inr audio_path)
    let ?w1 = "emit (Stage Image_generation) (?w0\<lparr>files := fs1\<rparr>)"
    have "prefix t (trace (?w0\<lparr>files := fs1\<rparr>))"
      using p0 by simp
    then have p1: "prefix t (trace ?w1)"
      by (rule emit_mono)
    obtain ri fs2 where im: "generate_image_offline lm ?w1 s style = (ri, fs2)"
      by (cases "generate_image_offline lm ?w1 s style") blast
    show ?thesis
    proof (cases ri)
      case (Inl e)
      with Cons.prems(1) a audio im p1 show ?thesis by (auto simp: Let_def)
    next
      case image: (Inr image_path)
      obtain rs w2 where sg: "create_video_segment env image_path audio_path i
          (?w1\<lparr>files := fs2\<rparr>) = (rs, w2)"
        by (cases "create_video_segment env image_path audio_path i (?w1\<lparr>files := fs2\<rparr>)") blast
      have "prefix t (trace (?w1\<lparr>files := fs2\<rparr>))"
        using p1 by simp
      with sg have p2: "prefix t (trace w2)"
        by (rule create_video_segment_mono)
      show ?thesis
      proof (cases rs)
        case (Inl e)
        with Cons.prems(1) a audio im image sg p2 show ?thesis by (auto simp: Let_def)
      next
        case (Inr segment_path)
        with Cons.prems(1) a audio im image sg have
          "offline_segments lm env v style (i + 1) segs (acc @ [segment_path]) w2 = (r, w')"
          by (auto simp: Let_def)
        then show ?thesis using p2 by (rule Cons.IH)
      qed
    qed
  qed
qed

lemma generate_video_offline_mono:
  "generate_video_offline lm env script v style w = (r, w') \<Longrightarrow>
     prefix (trace w @ [Stage Segmentation]) (trace w')"
proof -
  assume run: "generate_video_offline lm env script v style w = (r, w')"
  let ?t = "trace w @ [Stage Segmentation]"
  have t0: "prefix ?t (trace (emit (Stage Segmentation) w))"
    by (simp add: emit_def)
  obtain rs w1 where s: "offline_segments lm env v style 0 (split_script script) []
      (emit (Stage Segmentation) w) = (rs, w1)"
    by (cases "offline_segments lm env v style 0 (split_script script) []
      (emit (Stage Segmentation) w)") blast
  have p1: "prefix ?t (trace w1)"
    using s t0 by (rule offline_segments_mono)
  show ?thesis
  proof (cases rs)
    case (Inl e)
    with run s p1 show ?thesis by (simp add: generate_video_offline_def)
  next
    case (Inr video_segments)
    obtain rc w2 where c: "combine_video_segments env video_segments (emit (Stage Assembly) w1) =
        (rc, w2)"
      by (cases "combine_video_segments env video_segments (emit (Stage Assembly) w1)") blast
    have "prefix ?t (trace w2)"
      using c emit_mono [OF p1] by (rule combine_video_segments_mono)
    with run s Inr c show ?thesis
      by (auto simp: generate_video_offline_def split: sum.splits)
  qed
qed

lemma nonempty_script_enters_segmentation_offline:
  "script \<noteq> [] \<Longrightarrow>
     prefix (trace w @ [Stage Segmentation])
       (trace (snd (generate_video_offline_route lm env
          \<lparr>offline_script = Some script, offline_voice_id = v, offline_style = st,
           offline_title = ti\<rparr> w)))"
  by (auto simp: generate_video_offline_route_def get_or_def Let_def
      split: prod.splits sum.splits option.splits
      dest: generate_video_offline_mono)

end
